theory Spec2Isabelle
  imports Main "HOL-Library.AList" "HOL-Library.Multiset"
begin

section \<open>Data model\<close>

text \<open>
  The router of \<^verbatim>\<open>src/api/applications.ts\<close> works on two entities of the relational
  store (Application and Team), on the session's user and on the documents of the search
  backend. Identifiers are numbers assigned by the store and by the session. A nullable
  column is an \<open>option\<close>. A timestamp is held as the ISO string that a response
  carries for it. Where the source tests a value for JavaScript truthiness
  (\<^verbatim>\<open>if (application.teamId)\<close>, \<^verbatim>\<open>if (!before)\<close>) the model tests it the same
  way: the number \<open>0\<close>, the empty string and an absent value are falsy.
\<close>

type_synonym ident = nat

datatype json =
    JNull
  | JNum int
  | JStr string
  | JArr "json list"
  | JObj "(string \<times> json) list"

record application =
  app_id    :: ident
  name      :: string
  key       :: string
  ownerId   :: "ident option"
  teamId    :: "ident option"
  createdAt :: string
  updatedAt :: string

record team =
  team_id   :: ident
  memberIds :: "ident list"

record response =
  status  :: nat
  payload :: json

text \<open>What a handler does with a request: it sends a response, or its promise rejects
  (an awaited call threw and nothing in the handler caught it), and then the handler
  sends nothing.\<close>

datatype outcome = Sent response | Rejected

text \<open>JavaScript truthiness of a nullable identifier and of an optional query-string
  parameter: the result is the value when it is truthy, and \<open>None\<close> when it is absent,
  \<open>0\<close> or the empty string.\<close>

definition truthyId :: "ident option \<Rightarrow> ident option" where
  "truthyId v = (case v of None \<Rightarrow> None | Some n \<Rightarrow> if n = 0 then None else Some n)"

definition truthyStr :: "string option \<Rightarrow> string option" where
  "truthyStr v = (case v of None \<Rightarrow> None | Some s \<Rightarrow> if s = [] then None else Some s)"

text \<open>\<^verbatim>\<open>res.send(x)\<close> answers with status 200; \<^verbatim>\<open>res.status(c).send({code, message})\<close>
  is the error envelope.\<close>

definition send :: "json \<Rightarrow> response" where
  "send b = \<lparr>status = 200, payload = b\<rparr>"

definition sendError :: "nat \<Rightarrow> string \<Rightarrow> response" where
  "sendError c m = \<lparr>status = c, payload = JObj [(''code'', JNum (int c)), (''message'', JStr m)]\<rparr>"

section \<open>The relational store\<close>

text \<open>The repository calls of the source: \<^verbatim>\<open>teamRepo.findOne(id)\<close> gives the Team with
  that primary key if there is one; \<^verbatim>\<open>applicationRepo.find({ownerId: u})\<close> and
  \<^verbatim>\<open>applicationRepo.find({teamId: t})\<close> give the rows with that column value; the query
  \<^verbatim>\<open>:userId = ANY ("memberIds")\<close> gives the Teams whose member array holds the user.\<close>

definition findOne :: "team list \<Rightarrow> ident \<Rightarrow> team option" where
  "findOne ts i = find (\<lambda>t. team_id t = i) ts"

definition findByOwner :: "application list \<Rightarrow> ident \<Rightarrow> application list" where
  "findByOwner apps u = filter (\<lambda>a. ownerId a = Some u) apps"

definition findByTeam :: "application list \<Rightarrow> ident \<Rightarrow> application list" where
  "findByTeam apps t = filter (\<lambda>a. teamId a = Some t) apps"

definition teamsOfUser :: "team list \<Rightarrow> ident \<Rightarrow> team list" where
  "teamsOfUser ts u = filter (\<lambda>t. u \<in> set (memberIds t)) ts"

section \<open>Access resolution: \<^verbatim>\<open>router.param('applicationId')\<close>\<close>

text \<open>
  \<^verbatim>\<open>getById\<close> comes from \<^verbatim>\<open>./utils/applicationCache\<close>, which is not part of the
  sources at hand: the handler takes the lookup as a parameter, so that every result
  below holds for a cached lookup as well as for a direct read. The Team is read with
  \<^verbatim>\<open>teamRepo.findOne\<close> from the store as it is when the request runs. The result is
  \<open>Inl\<close> of the response sent, or \<open>Inr\<close> of the application attached to the request
  when \<^verbatim>\<open>next()\<close> is called. The \<^verbatim>\<open>console.time\<close> calls have no part in the result.
  Every route runs behind \<^verbatim>\<open>router.use('*')\<close>, which answers 403 to a request without a
  user: the handlers are given the id of the logged-in user.
\<close>

definition applicationParam ::
  "(ident \<Rightarrow> application option) \<Rightarrow> team list \<Rightarrow> ident \<Rightarrow> ident \<Rightarrow> response + application" where
  "applicationParam getById teams applicationId userId =
     (case getById applicationId of
        None \<Rightarrow> Inl (sendError 404 ''Unknown application'')
      | Some application \<Rightarrow>
          if ownerId application = Some userId then Inr application
          else
            (case truthyId (teamId application) of
               Some tid \<Rightarrow>
                 (case findOne teams tid of
                    Some team \<Rightarrow>
                      if userId \<in> set (memberIds team) then Inr application
                      else Inl (sendError 403 ''You have no access to this application'')
                  | None \<Rightarrow> Inl (sendError 403 ''You have no access to this application''))
             | None \<Rightarrow> Inl (sendError 403 ''You have no access to this application'')))"

text \<open>A write to the Team table made elsewhere in the system: the user leaves the
  Team. It is how the store differs between two requests in the statement about stale
  grants.\<close>

definition removeMember :: "ident \<Rightarrow> ident \<Rightarrow> team list \<Rightarrow> team list" where
  "removeMember t u ts =
     map (\<lambda>x. if team_id x = t then x\<lparr>memberIds := removeAll u (memberIds x)\<rparr> else x) ts"

section \<open>Listing: \<^verbatim>\<open>router.get('/list')\<close>\<close>

text \<open>The projection sent for each application: six fields, in the order of the source;
  a null column is sent as \<^verbatim>\<open>null\<close>, a timestamp as its ISO string.\<close>

definition idJson :: "ident option \<Rightarrow> json" where
  "idJson v = (case v of None \<Rightarrow> JNull | Some n \<Rightarrow> JNum (int n))"

definition summary :: "application \<Rightarrow> json" where
  "summary application = JObj
     [(''id'', JNum (int (app_id application))),
      (''name'', JStr (name application)),
      (''teamId'', idJson (teamId application)),
      (''ownerId'', idJson (ownerId application)),
      (''createdAt'', JStr (createdAt application)),
      (''updatedAt'', JStr (updatedAt application))]"

text \<open>The applications of the user, then those of each Team the user is in. The source
  starts one lookup per Team and appends each result when it arrives
  (\<^verbatim>\<open>Promise.all\<close>), so the blocks of the Teams come in the order in which the lookups
  complete: \<open>arrival\<close> is that reordering of the Teams found.\<close>

definition listApplications ::
  "(team list \<Rightarrow> team list) \<Rightarrow> application list \<Rightarrow> team list \<Rightarrow> ident \<Rightarrow> application list" where
  "listApplications arrival apps teams userId =
     findByOwner apps userId
     @ concat (map (\<lambda>team. findByTeam apps (team_id team))
                 (arrival (teamsOfUser teams userId)))"

definition listHandler ::
  "(team list \<Rightarrow> team list) \<Rightarrow> application list \<Rightarrow> team list \<Rightarrow> ident \<Rightarrow> response" where
  "listHandler arrival apps teams userId =
     send (JArr (map summary (listApplications arrival apps teams userId)))"

section \<open>The search backend\<close>

text \<open>
  An index holds documents (\<^verbatim>\<open>_id\<close> and \<^verbatim>\<open>_source\<close>); the backend is a list of named
  indices. The source builds queries in the backend's query language and leaves their
  evaluation to the backend, so two things are the backend's own and are parameters
  here: how it reads the bound of a range filter as a number (\<open>coerce\<close>), and its
  full-text match of a query text on a field under a \<^verbatim>\<open>minimum_should_match\<close>
  threshold (\<open>textMatch\<close>).
\<close>

record hit =
  hit_id :: string
  source :: "(string \<times> json) list"

type_synonym indices = "(string \<times> hit list) list"

record backend =
  coerce    :: "string \<Rightarrow> int option"
  textMatch :: "string \<Rightarrow> string \<Rightarrow> string \<Rightarrow> bool"

datatype query =
    Match string string string
  | RangeLt string string
  | BoolFilter query
  | BoolFilterMust query query

text \<open>\<open>Match f q m\<close> is \<^verbatim>\<open>{match: {f: {query: q, minimum_should_match: m}}}\<close>,
  \<open>RangeLt f b\<close> is \<^verbatim>\<open>{range: {f: {lt: b}}}\<close>, and the two \<open>Bool\<close> forms are
  \<^verbatim>\<open>{bool: {filter: ...}}\<close> without and with a \<^verbatim>\<open>must\<close> clause.\<close>

fun matches :: "backend \<Rightarrow> query \<Rightarrow> (string \<times> json) list \<Rightarrow> bool" where
  "matches be (Match f q m) src =
     (case map_of src f of Some (JStr s) \<Rightarrow> textMatch be q m s | _ \<Rightarrow> False)"
| "matches be (RangeLt f b) src =
     (case map_of src f of
        Some (JNum n) \<Rightarrow> (case coerce be b of Some x \<Rightarrow> n < x | None \<Rightarrow> False)
      | _ \<Rightarrow> False)"
| "matches be (BoolFilter flt) src = matches be flt src"
| "matches be (BoolFilterMust flt must) src = (matches be flt src \<and> matches be must src)"

text \<open>The backend refuses a query whose range bound it cannot read.\<close>

fun accepted :: "backend \<Rightarrow> query \<Rightarrow> bool" where
  "accepted be (Match f q m) = True"
| "accepted be (RangeLt f b) = (coerce be b \<noteq> None)"
| "accepted be (BoolFilter flt) = accepted be flt"
| "accepted be (BoolFilterMust flt must) = (accepted be flt \<and> accepted be must)"

text \<open>\<^verbatim>\<open>sort: 'time:desc'\<close>: documents with a numeric \<^verbatim>\<open>time\<close>, latest first, then
  the documents without one.\<close>

definition timeOf :: "hit \<Rightarrow> int option" where
  "timeOf h = (case map_of (source h) ''time'' of Some (JNum t) \<Rightarrow> Some t | _ \<Rightarrow> None)"

definition sortTimeDesc :: "hit list \<Rightarrow> hit list" where
  "sortTimeDesc hs =
     sort_key (\<lambda>h. case timeOf h of Some t \<Rightarrow> - t | None \<Rightarrow> 0) (filter (\<lambda>h. timeOf h \<noteq> None) hs)
     @ filter (\<lambda>h. timeOf h = None) hs"

text \<open>\<^verbatim>\<open>esClient.search({index, sort: 'time:desc', size, body: {query}})\<close>: \<open>None\<close> when
  the call throws (no such index, or a query the backend refuses), otherwise the hits.
  A call without a body matches every document.\<close>

definition search :: "backend \<Rightarrow> indices \<Rightarrow> string \<Rightarrow> nat \<Rightarrow> query option \<Rightarrow> hit list option" where
  "search be es index size' q =
     (case map_of es index of
        None \<Rightarrow> None
      | Some docs \<Rightarrow>
          (case q of
             None \<Rightarrow> Some (take size' (sortTimeDesc docs))
           | Some q' \<Rightarrow>
               if accepted be q'
               then Some (take size' (sortTimeDesc (filter (\<lambda>h. matches be q' (source h)) docs)))
               else None))"

text \<open>\<^verbatim>\<open>esClient.indices.exists\<close> and \<^verbatim>\<open>esClient.indices.create\<close>; the latter throws
  (\<open>None\<close>) when the backend is down or the index is already there.\<close>

definition indicesExists :: "indices \<Rightarrow> string \<Rightarrow> bool" where
  "indicesExists es index = (map_of es index \<noteq> None)"

definition indicesCreate :: "bool \<Rightarrow> indices \<Rightarrow> string \<Rightarrow> indices option" where
  "indicesCreate up es index =
     (if up \<and> \<not> indicesExists es index then Some (es @ [(index, [])]) else None)"

text \<open>The index of an application is named \<^verbatim>\<open>`syslog-${application.id}`\<close>.\<close>

fun decimal :: "nat \<Rightarrow> string" where
  "decimal n =
     (if n < 10 then [char_of (48 + n)]
      else decimal (n div 10) @ [char_of (48 + n mod 10)])"

declare decimal.simps [simp del]

definition indexName :: "ident \<Rightarrow> string" where
  "indexName i = ''syslog-'' @ decimal i"

section \<open>Creation: \<^verbatim>\<open>router.post('/create')\<close>\<close>

text \<open>
  The state the handler reads and writes: the two tables, the key the store gives to the
  next row it inserts, and the indices of the search backend.
\<close>

record system =
  applications :: "application list"
  teams        :: "team list"
  nextId       :: ident
  esIndices    :: indices

record createBody =
  body_name   :: string
  body_teamId :: "ident option"

text \<open>\<^verbatim>\<open>new applicationEntity()\<close>: no column is set yet.\<close>

definition applicationEntity :: application where
  "applicationEntity =
     \<lparr>app_id = 0, name = [], key = [], ownerId = None, teamId = None,
      createdAt = [], updatedAt = []\<rparr>"

text \<open>\<^verbatim>\<open>newApplication.save()\<close> inserts the row: the store assigns the primary key and
  the two timestamps.\<close>

definition save :: "string \<Rightarrow> system \<Rightarrow> application \<Rightarrow> application \<times> system" where
  "save now st a =
     (let saved = a\<lparr>app_id := nextId st, createdAt := now, updatedAt := now\<rparr>
      in (saved, st\<lparr>applications := applications st @ [saved], nextId := Suc (nextId st)\<rparr>))"

text \<open>\<^verbatim>\<open>res.send(newApplication)\<close> sends the whole entity, the key included, with its
  properties in the order in which they were set: the name, then the \<open>teamId\<close> or the
  \<open>ownerId\<close> (the handler sets one of the two; a property that was never set is not
  sent), the key, and then what the insert adds, the id and the two timestamps.\<close>

definition entityJson :: "application \<Rightarrow> json" where
  "entityJson application = JObj
     ([(''name'', JStr (name application))]
      @ (case teamId application of None \<Rightarrow> [] | Some t \<Rightarrow> [(''teamId'', JNum (int t))])
      @ (case ownerId application of None \<Rightarrow> [] | Some u \<Rightarrow> [(''ownerId'', JNum (int u))])
      @ [(''key'', JStr (key application)),
         (''id'', JNum (int (app_id application))),
         (''createdAt'', JStr (createdAt application)),
         (''updatedAt'', JStr (updatedAt application))])"

text \<open>The part of the handler after the owner or the Team is set: the key, the insert,
  the creation of the index, the answer. The creation of the index is awaited outside any
  \<^verbatim>\<open>try\<close>: when it throws, the handler's promise rejects after the row is stored.\<close>

definition saveAndProvision ::
  "string \<Rightarrow> string \<Rightarrow> bool \<Rightarrow> system \<Rightarrow> application \<Rightarrow> outcome \<times> system" where
  "saveAndProvision randomKey now esUp st newApplication =
     (let (saved, st1) = save now st (newApplication\<lparr>key := randomKey\<rparr>)
      in case indicesCreate esUp (esIndices st1) (indexName (app_id saved)) of
           None \<Rightarrow> (Rejected, st1)
         | Some es \<Rightarrow> (Sent (send (entityJson saved)), st1\<lparr>esIndices := es\<rparr>))"

text \<open>
  \<^verbatim>\<open>applicationSchema\<close> (from \<^verbatim>\<open>../schemas/application\<close>) is not part of the sources
  at hand: it is a parameter, giving the message of the validation error for a body it
  refuses. \<open>randomKey\<close> is the string \<^verbatim>\<open>cryptoRandomString({length: 20})\<close> returns,
  \<open>now\<close> the time of the insert, \<open>esUp\<close> whether the search backend answers.
\<close>

definition createHandler ::
  "(createBody \<Rightarrow> string option) \<Rightarrow> string \<Rightarrow> string \<Rightarrow> bool \<Rightarrow> system \<Rightarrow> ident \<Rightarrow> createBody
     \<Rightarrow> outcome \<times> system" where
  "createHandler applicationSchema randomKey now esUp st userId body =
     (case applicationSchema body of
        Some message \<Rightarrow> (Sent (sendError 400 message), st)
      | None \<Rightarrow>
          (let newApplication = applicationEntity\<lparr>name := body_name body\<rparr> in
           case truthyId (body_teamId body) of
             Some tid \<Rightarrow>
               (case findOne (teams st) tid of
                  None \<Rightarrow> (Sent (sendError 400 ''Unknown team''), st)
                | Some team \<Rightarrow>
                    if userId \<notin> set (memberIds team)
                    then (Sent (sendError 403 ''You don't have access to this team''), st)
                    else saveAndProvision randomKey now esUp st
                           (newApplication\<lparr>teamId := body_teamId body\<rparr>))
           | None \<Rightarrow>
               saveAndProvision randomKey now esUp st
                 (newApplication\<lparr>ownerId := Some userId\<rparr>)))"

text \<open>The writes that reach the two tables: a creation request, and a write to the Team
  table made elsewhere in the system (this router never writes a Team).\<close>

datatype event =
    Create string string bool ident createBody
  | TeamsWrite "team list"

fun step :: "(createBody \<Rightarrow> string option) \<Rightarrow> system \<Rightarrow> event \<Rightarrow> system" where
  "step applicationSchema st (Create randomKey now esUp userId body) =
     snd (createHandler applicationSchema randomKey now esUp st userId body)"
| "step applicationSchema st (TeamsWrite ts) = st\<lparr>teams := ts\<rparr>"

definition run :: "(createBody \<Rightarrow> string option) \<Rightarrow> system \<Rightarrow> event list \<Rightarrow> system" where
  "run applicationSchema st evs = foldl (step applicationSchema) st evs"

text \<open>Exactly one of \<open>ownerId\<close> and \<open>teamId\<close> is non-null.\<close>

definition exactlyOne :: "application \<Rightarrow> bool" where
  "exactlyOne a = ((ownerId a \<noteq> None) \<noteq> (teamId a \<noteq> None))"

section \<open>Log queries: \<^verbatim>\<open>router.get('/:applicationId/logs/...')\<close>\<close>

record queryParams =
  content :: "string option"
  before  :: "string option"

text \<open>The guard on \<^verbatim>\<open>/:applicationId/logs/*\<close> is registered before the three log
  routes: it answers \<^verbatim>\<open>[]\<close> when the index of the application does not exist, and calls
  \<^verbatim>\<open>next()\<close> (\<open>None\<close>) otherwise.\<close>

definition logsGuard :: "indices \<Rightarrow> application \<Rightarrow> response option" where
  "logsGuard es application =
     (if \<not> indicesExists es (indexName (app_id application)) then Some (send (JArr [])) else None)"

text \<open>Each hit is sent as its \<^verbatim>\<open>_source\<close> with the field \<^verbatim>\<open>_id\<close> set to the hit's
  \<^verbatim>\<open>_id\<close>.\<close>

definition reshape :: "hit \<Rightarrow> json" where
  "reshape result = JObj (AList.update ''_id'' (JStr (hit_id result)) (source result))"

definition sendHits :: "hit list option \<Rightarrow> outcome" where
  "sendHits esResult = (case esResult of None \<Rightarrow> Rejected | Some hs \<Rightarrow> Sent (send (JArr (map reshape hs))))"

text \<open>\<open>decodeURI\<close> is the built-in of that name; it throws (\<open>None\<close>) on a malformed
  escape sequence, and the search handler does not catch that.\<close>

definition searchHandler ::
  "backend \<Rightarrow> (string \<Rightarrow> string option) \<Rightarrow> indices \<Rightarrow> application \<Rightarrow> queryParams \<Rightarrow> outcome" where
  \<open>searchHandler be decodeURI es application q =
     (case truthyStr (content q) of
        None \<Rightarrow> Sent (sendError 400 ''Missing "content" parameter'')
      | Some searchContent \<Rightarrow>
          (case decodeURI searchContent of
             None \<Rightarrow> Rejected
           | Some text \<Rightarrow>
               sendHits (search be es (indexName (app_id application)) 100
                           (Some (Match ''message'' text ''80%'')))))\<close>

definition recentHandler :: "backend \<Rightarrow> indices \<Rightarrow> application \<Rightarrow> outcome" where
  "recentHandler be es application =
     sendHits (search be es (indexName (app_id application)) 75 None)"

definition historyQuery :: "string \<Rightarrow> string option \<Rightarrow> query" where
  "historyQuery before' searchContent =
     (case truthyStr searchContent of
        None \<Rightarrow> BoolFilter (RangeLt ''id'' before')
      | Some c \<Rightarrow> BoolFilterMust (RangeLt ''id'' before') (Match ''message'' c ''80%''))"

definition historyHandler :: "backend \<Rightarrow> indices \<Rightarrow> application \<Rightarrow> queryParams \<Rightarrow> outcome" where
  \<open>historyHandler be es application q =
     (case truthyStr (before q) of
        None \<Rightarrow> Sent (sendError 400 ''Missing "before" parameter'')
      | Some before' \<Rightarrow>
          sendHits (search be es (indexName (app_id application)) 100
                      (Some (historyQuery before' (content q)))))\<close>

datatype endpoint = Search | Recent | History

text \<open>A request for one of the log routes by a logged-in user: the resolution of
  \<^verbatim>\<open>:applicationId\<close>, then the guard, then the route.\<close>

definition logsRoute ::
  "backend \<Rightarrow> (string \<Rightarrow> string option) \<Rightarrow> indices \<Rightarrow> application \<Rightarrow> endpoint \<Rightarrow> queryParams
     \<Rightarrow> outcome" where
  "logsRoute be decodeURI es application ep q =
     (case logsGuard es application of
        Some r \<Rightarrow> Sent r
      | None \<Rightarrow>
          (case ep of
             Search \<Rightarrow> searchHandler be decodeURI es application q
           | Recent \<Rightarrow> recentHandler be es application
           | History \<Rightarrow> historyHandler be es application q))"

definition logsRequest ::
  "backend \<Rightarrow> (string \<Rightarrow> string option) \<Rightarrow> (ident \<Rightarrow> application option) \<Rightarrow> team list \<Rightarrow> indices
     \<Rightarrow> ident \<Rightarrow> ident \<Rightarrow> endpoint \<Rightarrow> queryParams \<Rightarrow> outcome" where
  "logsRequest be decodeURI getById teamRows es userId applicationId ep q =
     (case applicationParam getById teamRows applicationId userId of
        Inl r \<Rightarrow> Sent r
      | Inr application \<Rightarrow> logsRoute be decodeURI es application ep q)"

section \<open>Example data\<close>

text \<open>A small store used to run the handlers: one application of user 7, one of Team 3,
  whose members are the users 8 and 9; a schema that asks for a name. For the listing,
  a larger table of four applications and three Teams, two of which user 7 is in.\<close>

definition examplePersonal :: application where
  "examplePersonal =
     \<lparr>app_id = 11, name = ''web'', key = ''k1'', ownerId = Some 7, teamId = None,
      createdAt = ''2021-03-01T09:00:10.000Z'', updatedAt = ''2021-03-01T09:00:10.000Z''\<rparr>"

definition exampleShared :: application where
  "exampleShared =
     \<lparr>app_id = 12, name = ''api'', key = ''k2'', ownerId = None, teamId = Some 3,
      createdAt = ''2021-03-01T09:00:11.000Z'', updatedAt = ''2021-03-01T09:00:11.000Z''\<rparr>"

definition exampleOps :: application where
  "exampleOps =
     \<lparr>app_id = 13, name = ''ops'', key = ''k3'', ownerId = None, teamId = Some 4,
      createdAt = ''2021-03-01T09:00:12.000Z'', updatedAt = ''2021-03-01T09:00:12.000Z''\<rparr>"

definition exampleOther :: application where
  "exampleOther =
     \<lparr>app_id = 14, name = ''crm'', key = ''k4'', ownerId = Some 8, teamId = None,
      createdAt = ''2021-03-01T09:00:13.000Z'', updatedAt = ''2021-03-01T09:00:13.000Z''\<rparr>"

definition exampleStore :: "application list" where
  "exampleStore = [examplePersonal, exampleShared, exampleOps, exampleOther]"

definition exampleMemberships :: "team list" where
  "exampleMemberships =
     [\<lparr>team_id = 3, memberIds = [7, 8]\<rparr>, \<lparr>team_id = 4, memberIds = [9, 7]\<rparr>,
      \<lparr>team_id = 5, memberIds = [8]\<rparr>]"

definition exampleTeams :: "team list" where
  "exampleTeams = [\<lparr>team_id = 3, memberIds = [8, 9]\<rparr>]"

definition exampleGetById :: "ident \<Rightarrow> application option" where
  "exampleGetById i = find (\<lambda>a. app_id a = i) [examplePersonal, exampleShared]"

definition exampleNow :: string where
  "exampleNow = ''2021-03-01T09:00:05.000Z''"

definition exampleLater :: string where
  "exampleLater = ''2021-03-01T09:00:06.000Z''"

definition exampleSchema :: "createBody \<Rightarrow> string option" where
  "exampleSchema b = (if body_name b = [] then Some ''name is a required field'' else None)"

definition exampleSystem :: system where
  "exampleSystem = \<lparr>applications = [], teams = exampleTeams, nextId = 1, esIndices = []\<rparr>"

text \<open>An index for the first application, with three log records, and a backend that
  reads the bounds \<^verbatim>\<open>50\<close> and \<^verbatim>\<open>100\<close> and matches a text that equals the query.\<close>

definition exampleHits :: "hit list" where
  "exampleHits =
     [\<lparr>hit_id = ''a'', source = [(''id'', JNum 40), (''time'', JNum 1000), (''message'', JStr ''disk full'')]\<rparr>,
      \<lparr>hit_id = ''b'', source = [(''id'', JNum 60), (''time'', JNum 2000), (''message'', JStr ''disk full'')]\<rparr>,
      \<lparr>hit_id = ''c'', source = [(''id'', JNum 45), (''time'', JNum 3000), (''message'', JStr ''login ok'')]\<rparr>]"

definition exampleIndices :: indices where
  "exampleIndices = [(''syslog-11'', exampleHits)]"

definition exampleDecodeURI :: "string \<Rightarrow> string option" where
  "exampleDecodeURI s = Some s"

definition exampleBackend :: backend where
  "exampleBackend =
     \<lparr>coerce = map_of [(''50'', 50), (''100'', 100)],
      textMatch = (\<lambda>q m s. q = s)\<rparr>"

section \<open>Access resolution: results\<close>

lemma findOne_removeMember:
  "findOne (removeMember t u ts) t = Some x \<Longrightarrow> u \<notin> set (memberIds x)"
proof (induction ts)
  case Nil
  then show ?case by (simp add: findOne_def removeMember_def)
next
  case (Cons a ts)
  show ?case
  proof (cases "team_id a = t")
    case True
    with Cons.prems have "x = a\<lparr>memberIds := removeAll u (memberIds a)\<rparr>"
      by (simp add: findOne_def removeMember_def)
    then show ?thesis by simp
  next
    case False
    with Cons.prems have "findOne (removeMember t u ts) t = Some x"
      by (simp add: findOne_def removeMember_def)
    then show ?thesis by (rule Cons.IH)
  qed
qed

text \<open>
  Claim C1. For every application id and every logged-in user: when the lookup finds no
  Application the request is answered 404; when the Application's \<open>ownerId\<close> is the
  user the request is granted; otherwise, when \<open>teamId\<close> is set (to a truthy identifier,
  as every identifier the store assigns is), the Team exists and the user is among its
  \<open>memberIds\<close>, the request is granted; in every other case the request is answered 403.
\<close>

theorem applicationParam_resolution:
  "(getById aid = None \<longrightarrow>
      applicationParam getById teamRows aid uid = Inl (sendError 404 ''Unknown application''))
   \<and> (\<forall>app. getById aid = Some app \<and> ownerId app = Some uid \<longrightarrow>
      applicationParam getById teamRows aid uid = Inr app)
   \<and> (\<forall>app tid tm. getById aid = Some app \<and> ownerId app \<noteq> Some uid
        \<and> teamId app = Some tid \<and> tid \<noteq> 0
        \<and> findOne teamRows tid = Some tm \<and> uid \<in> set (memberIds tm) \<longrightarrow>
      applicationParam getById teamRows aid uid = Inr app)
   \<and> (\<forall>app. getById aid = Some app \<and> ownerId app \<noteq> Some uid
        \<and> \<not> (\<exists>tid tm. teamId app = Some tid \<and> tid \<noteq> 0
              \<and> findOne teamRows tid = Some tm \<and> uid \<in> set (memberIds tm)) \<longrightarrow>
      applicationParam getById teamRows aid uid
        = Inl (sendError 403 ''You have no access to this application''))"
  unfolding applicationParam_def truthyId_def
  by (auto split: option.splits if_splits)

theorem applicationParam_resolution_witness:
  "applicationParam exampleGetById exampleTeams 5 7 = Inl (sendError 404 ''Unknown application'')
   \<and> applicationParam exampleGetById exampleTeams 11 7 = Inr examplePersonal
   \<and> applicationParam exampleGetById exampleTeams 12 8 = Inr exampleShared
   \<and> applicationParam exampleGetById exampleTeams 12 7
       = Inl (sendError 403 ''You have no access to this application'')"
proof (intro conjI)
  have "exampleGetById 5 = None"
    by (simp add: exampleGetById_def examplePersonal_def exampleShared_def)
  with applicationParam_resolution [of exampleGetById 5 exampleTeams 7]
  show "applicationParam exampleGetById exampleTeams 5 7
          = Inl (sendError 404 ''Unknown application'')"
    by blast
next
  have "exampleGetById 11 = Some examplePersonal \<and> ownerId examplePersonal = Some 7"
    by (simp add: exampleGetById_def examplePersonal_def)
  with applicationParam_resolution [of exampleGetById 11 exampleTeams 7]
  show "applicationParam exampleGetById exampleTeams 11 7 = Inr examplePersonal"
    by blast
next
  have "exampleGetById 12 = Some exampleShared \<and> ownerId exampleShared \<noteq> Some 8
        \<and> teamId exampleShared = Some 3 \<and> (3::nat) \<noteq> 0
        \<and> findOne exampleTeams 3 = Some \<lparr>team_id = 3, memberIds = [8, 9]\<rparr>
        \<and> (8::nat) \<in> set (memberIds \<lparr>team_id = 3, memberIds = [8, 9]\<rparr>)"
    by (simp add: exampleGetById_def examplePersonal_def exampleShared_def exampleTeams_def
          findOne_def)
  with applicationParam_resolution [of exampleGetById 12 exampleTeams 8]
  show "applicationParam exampleGetById exampleTeams 12 8 = Inr exampleShared"
    by blast
next
  have "exampleGetById 12 = Some exampleShared \<and> ownerId exampleShared \<noteq> Some 7
        \<and> \<not> (\<exists>tid tm. teamId exampleShared = Some tid \<and> tid \<noteq> 0
              \<and> findOne exampleTeams tid = Some tm \<and> 7 \<in> set (memberIds tm))"
    by (auto simp add: exampleGetById_def examplePersonal_def exampleShared_def
          exampleTeams_def findOne_def)
  with applicationParam_resolution [of exampleGetById 12 exampleTeams 7]
  show "applicationParam exampleGetById exampleTeams 12 7
          = Inl (sendError 403 ''You have no access to this application'')"
    by blast
qed

text \<open>
  Claim C2. The decision never rests on a Team membership of the past: the Team and its
  \<open>memberIds\<close> are read from the store as it is at the request, whatever the lookup of the
  Application is served from. So when the user has been removed from the Team of the
  Application before a request, and is not its owner, that request is answered 403.
\<close>

theorem applicationParam_no_stale_grant:
  assumes "getById aid = Some app" and "ownerId app \<noteq> Some uid" and "teamId app = Some tid"
  shows "applicationParam getById (removeMember tid uid teamRows) aid uid
           = Inl (sendError 403 ''You have no access to this application'')"
proof (cases "tid = 0")
  case True
  with assms show ?thesis by (simp add: applicationParam_def truthyId_def)
next
  case False
  show ?thesis
  proof (cases "findOne (removeMember tid uid teamRows) tid")
    case None
    with assms False show ?thesis by (simp add: applicationParam_def truthyId_def)
  next
    case (Some tm)
    then have "uid \<notin> set (memberIds tm)" by (rule findOne_removeMember)
    with assms False Some show ?thesis by (simp add: applicationParam_def truthyId_def)
  qed
qed

theorem applicationParam_no_stale_grant_witness:
  "applicationParam exampleGetById exampleTeams 12 8 = Inr exampleShared
   \<and> applicationParam exampleGetById (removeMember 3 8 exampleTeams) 12 8
       = Inl (sendError 403 ''You have no access to this application'')"
proof
  show "applicationParam exampleGetById exampleTeams 12 8 = Inr exampleShared"
    by (simp add: applicationParam_def exampleGetById_def examplePersonal_def
          exampleShared_def exampleTeams_def findOne_def truthyId_def)
next
  have "exampleGetById 12 = Some exampleShared"
    by (simp add: exampleGetById_def examplePersonal_def exampleShared_def)
  moreover have "ownerId exampleShared \<noteq> Some 8" and "teamId exampleShared = Some 3"
    by (simp_all add: exampleShared_def)
  ultimately show "applicationParam exampleGetById (removeMember 3 8 exampleTeams) 12 8
       = Inl (sendError 403 ''You have no access to this application'')"
    by (rule applicationParam_no_stale_grant)
qed

section \<open>Creation: results\<close>

lemma saveAndProvision_applications:
  "applications (snd (saveAndProvision k now up st a))
     = applications st @ [a\<lparr>key := k, app_id := nextId st, createdAt := now, updatedAt := now\<rparr>]"
  by (simp add: saveAndProvision_def save_def Let_def split: option.splits)

lemma saveAndProvision_fst:
  "fst (saveAndProvision k now up st a) =
     (case indicesCreate up (esIndices st) (indexName (nextId st)) of
        None \<Rightarrow> Rejected
      | Some es \<Rightarrow> Sent (send (entityJson (a\<lparr>key := k, app_id := nextId st, createdAt := now, updatedAt := now\<rparr>))))"
  by (simp add: saveAndProvision_def save_def Let_def split: option.splits)

text \<open>
  Claim C3. For a body the schema accepts and every logged-in user: a creation without a
  \<open>teamId\<close> (absent, or falsy as the handler tests it) stores one new record whose
  \<open>ownerId\<close> is the creator; a creation with the \<open>teamId\<close> of a Team the creator is in
  stores one new record with that \<open>teamId\<close> and a null \<open>ownerId\<close>; with the \<open>teamId\<close> of
  a Team the creator is not in, the answer is 403 and the state is unchanged; with a
  \<open>teamId\<close> that names no Team, the answer is 400 and the state is unchanged.
\<close>

theorem createHandler_cases:
  assumes valid: "applicationSchema b = None"
  shows
  "(truthyId (body_teamId b) = None \<longrightarrow>
      (\<exists>a. applications (snd (createHandler applicationSchema k now up st uid b))
              = applications st @ [a]
           \<and> ownerId a = Some uid \<and> teamId a = None))
   \<and> (\<forall>tid tm. body_teamId b = Some tid \<and> tid \<noteq> 0
         \<and> findOne (teams st) tid = Some tm \<and> uid \<in> set (memberIds tm) \<longrightarrow>
      (\<exists>a. applications (snd (createHandler applicationSchema k now up st uid b))
              = applications st @ [a]
           \<and> teamId a = Some tid \<and> ownerId a = None))
   \<and> (\<forall>tid tm. body_teamId b = Some tid \<and> tid \<noteq> 0
         \<and> findOne (teams st) tid = Some tm \<and> uid \<notin> set (memberIds tm) \<longrightarrow>
      createHandler applicationSchema k now up st uid b
        = (Sent (sendError 403 ''You don't have access to this team''), st))
   \<and> (\<forall>tid. body_teamId b = Some tid \<and> tid \<noteq> 0 \<and> findOne (teams st) tid = None \<longrightarrow>
      createHandler applicationSchema k now up st uid b
        = (Sent (sendError 400 ''Unknown team''), st))"
proof (intro conjI allI impI)
  assume "truthyId (body_teamId b) = None"
  with valid show "\<exists>a. applications (snd (createHandler applicationSchema k now up st uid b))
              = applications st @ [a] \<and> ownerId a = Some uid \<and> teamId a = None"
    by (simp add: createHandler_def saveAndProvision_applications applicationEntity_def)
next
  fix tid tm
  assume "body_teamId b = Some tid \<and> tid \<noteq> 0
         \<and> findOne (teams st) tid = Some tm \<and> uid \<in> set (memberIds tm)"
  with valid show "\<exists>a. applications (snd (createHandler applicationSchema k now up st uid b))
              = applications st @ [a] \<and> teamId a = Some tid \<and> ownerId a = None"
    by (simp add: createHandler_def truthyId_def saveAndProvision_applications applicationEntity_def)
next
  fix tid tm
  assume "body_teamId b = Some tid \<and> tid \<noteq> 0
         \<and> findOne (teams st) tid = Some tm \<and> uid \<notin> set (memberIds tm)"
  with valid show "createHandler applicationSchema k now up st uid b
        = (Sent (sendError 403 ''You don't have access to this team''), st)"
    by (simp add: createHandler_def truthyId_def)
next
  fix tid
  assume "body_teamId b = Some tid \<and> tid \<noteq> 0 \<and> findOne (teams st) tid = None"
  with valid show "createHandler applicationSchema k now up st uid b
        = (Sent (sendError 400 ''Unknown team''), st)"
    by (simp add: createHandler_def truthyId_def)
qed

theorem createHandler_cases_witness:
  "(\<exists>a. applications (snd (createHandler exampleSchema ''key'' exampleNow True exampleSystem 7
                              \<lparr>body_name = ''web'', body_teamId = None\<rparr>))
            = applications exampleSystem @ [a]
         \<and> ownerId a = Some 7 \<and> teamId a = None)
   \<and> (\<exists>a. applications (snd (createHandler exampleSchema ''key'' exampleNow True exampleSystem 8
                              \<lparr>body_name = ''api'', body_teamId = Some 3\<rparr>))
            = applications exampleSystem @ [a]
         \<and> teamId a = Some 3 \<and> ownerId a = None)
   \<and> createHandler exampleSchema ''key'' exampleNow True exampleSystem 7
        \<lparr>body_name = ''api'', body_teamId = Some 3\<rparr>
       = (Sent (sendError 403 ''You don't have access to this team''), exampleSystem)
   \<and> createHandler exampleSchema ''key'' exampleNow True exampleSystem 7
        \<lparr>body_name = ''api'', body_teamId = Some 4\<rparr>
       = (Sent (sendError 400 ''Unknown team''), exampleSystem)"
proof (intro conjI)
  have "exampleSchema \<lparr>body_name = ''web'', body_teamId = None\<rparr> = None"
    and "truthyId (body_teamId \<lparr>body_name = ''web'', body_teamId = None\<rparr>) = None"
    by (simp_all add: exampleSchema_def truthyId_def)
  with createHandler_cases [of exampleSchema "\<lparr>body_name = ''web'', body_teamId = None\<rparr>"
      "''key''" exampleNow True exampleSystem 7]
  show "\<exists>a. applications (snd (createHandler exampleSchema ''key'' exampleNow True exampleSystem 7
                              \<lparr>body_name = ''web'', body_teamId = None\<rparr>))
            = applications exampleSystem @ [a]
         \<and> ownerId a = Some 7 \<and> teamId a = None"
    by blast
next
  have "exampleSchema \<lparr>body_name = ''api'', body_teamId = Some 3\<rparr> = None"
    and "body_teamId \<lparr>body_name = ''api'', body_teamId = Some 3\<rparr> = Some 3 \<and> (3::nat) \<noteq> 0
         \<and> findOne (teams exampleSystem) 3 = Some \<lparr>team_id = 3, memberIds = [8, 9]\<rparr>
         \<and> (8::nat) \<in> set (memberIds \<lparr>team_id = 3, memberIds = [8, 9]\<rparr>)"
    by (simp_all add: exampleSchema_def exampleSystem_def exampleTeams_def findOne_def)
  with createHandler_cases [of exampleSchema "\<lparr>body_name = ''api'', body_teamId = Some 3\<rparr>"
      "''key''" exampleNow True exampleSystem 8]
  show "\<exists>a. applications (snd (createHandler exampleSchema ''key'' exampleNow True exampleSystem 8
                              \<lparr>body_name = ''api'', body_teamId = Some 3\<rparr>))
            = applications exampleSystem @ [a]
         \<and> teamId a = Some 3 \<and> ownerId a = None"
    by blast
next
  have "exampleSchema \<lparr>body_name = ''api'', body_teamId = Some 3\<rparr> = None"
    and "body_teamId \<lparr>body_name = ''api'', body_teamId = Some 3\<rparr> = Some 3 \<and> (3::nat) \<noteq> 0
         \<and> findOne (teams exampleSystem) 3 = Some \<lparr>team_id = 3, memberIds = [8, 9]\<rparr>
         \<and> (7::nat) \<notin> set (memberIds \<lparr>team_id = 3, memberIds = [8, 9]\<rparr>)"
    by (simp_all add: exampleSchema_def exampleSystem_def exampleTeams_def findOne_def)
  with createHandler_cases [of exampleSchema "\<lparr>body_name = ''api'', body_teamId = Some 3\<rparr>"
      "''key''" exampleNow True exampleSystem 7]
  show "createHandler exampleSchema ''key'' exampleNow True exampleSystem 7
        \<lparr>body_name = ''api'', body_teamId = Some 3\<rparr>
       = (Sent (sendError 403 ''You don't have access to this team''), exampleSystem)"
    by blast
next
  have "exampleSchema \<lparr>body_name = ''api'', body_teamId = Some 4\<rparr> = None"
    and "body_teamId \<lparr>body_name = ''api'', body_teamId = Some 4\<rparr> = Some 4 \<and> (4::nat) \<noteq> 0
         \<and> findOne (teams exampleSystem) 4 = None"
    by (simp_all add: exampleSchema_def exampleSystem_def exampleTeams_def findOne_def)
  with createHandler_cases [of exampleSchema "\<lparr>body_name = ''api'', body_teamId = Some 4\<rparr>"
      "''key''" exampleNow True exampleSystem 7]
  show "createHandler exampleSchema ''key'' exampleNow True exampleSystem 7
        \<lparr>body_name = ''api'', body_teamId = Some 4\<rparr>
       = (Sent (sendError 400 ''Unknown team''), exampleSystem)"
    by blast
qed

lemma createHandler_applications:
  "applications (snd (createHandler applicationSchema k now up st uid b)) = applications st
   \<or> (\<exists>a. applications (snd (createHandler applicationSchema k now up st uid b))
            = applications st @ [a] \<and> exactlyOne a)"
  by (auto simp add: createHandler_def truthyId_def saveAndProvision_applications
        applicationEntity_def exactlyOne_def split: option.splits)

lemma step_exactlyOne:
  assumes "\<forall>a \<in> set (applications st). exactlyOne a"
  shows "\<forall>a \<in> set (applications (step applicationSchema st ev)). exactlyOne a"
proof (cases ev)
  case (Create k now up uid b)
  with assms createHandler_applications [of applicationSchema k now up st uid b]
  show ?thesis by auto
next
  case (TeamsWrite ts)
  with assms show ?thesis by simp
qed

text \<open>
  Claim C4. Every Application record the creation stores has exactly one of \<open>ownerId\<close>
  and \<open>teamId\<close> non-null; creation is the only write to the Application table, so the
  property holds for every record of the table after any sequence of creations and Team
  writes, from a table where it holds (the empty one, for a start).
\<close>

theorem creation_exactlyOne:
  "(\<forall>a \<in> set (applications st). exactlyOne a)
   \<Longrightarrow> \<forall>a \<in> set (applications (run applicationSchema st evs)). exactlyOne a"
  unfolding run_def
proof (induction evs arbitrary: st)
  case Nil
  then show ?case by simp
next
  case (Cons ev evs)
  from Cons.prems have "\<forall>a \<in> set (applications (step applicationSchema st ev)). exactlyOne a"
    by (rule step_exactlyOne)
  then show ?case using Cons.IH by simp
qed

theorem creation_exactlyOne_witness:
  "applications (run exampleSchema exampleSystem
      [Create ''ka'' exampleNow True 7 \<lparr>body_name = ''web'', body_teamId = None\<rparr>,
       TeamsWrite [\<lparr>team_id = 3, memberIds = [7]\<rparr>],
       Create ''kb'' exampleLater False 7 \<lparr>body_name = ''api'', body_teamId = Some 3\<rparr>])
     = [\<lparr>app_id = 1, name = ''web'', key = ''ka'', ownerId = Some 7, teamId = None,
          createdAt = exampleNow, updatedAt = exampleNow\<rparr>,
        \<lparr>app_id = 2, name = ''api'', key = ''kb'', ownerId = None, teamId = Some 3,
          createdAt = exampleLater, updatedAt = exampleLater\<rparr>]
   \<and> exactlyOne \<lparr>app_id = 1, name = ''web'', key = ''ka'', ownerId = Some 7, teamId = None,
          createdAt = exampleNow, updatedAt = exampleNow\<rparr>
   \<and> exactlyOne \<lparr>app_id = 2, name = ''api'', key = ''kb'', ownerId = None, teamId = Some 3,
          createdAt = exampleLater, updatedAt = exampleLater\<rparr>"
proof -
  let ?evs = "[Create ''ka'' exampleNow True 7 \<lparr>body_name = ''web'', body_teamId = None\<rparr>,
       TeamsWrite [\<lparr>team_id = 3, memberIds = [7]\<rparr>],
       Create ''kb'' exampleLater False 7 \<lparr>body_name = ''api'', body_teamId = Some 3\<rparr>]"
  have run: "applications (run exampleSchema exampleSystem ?evs)
     = [\<lparr>app_id = 1, name = ''web'', key = ''ka'', ownerId = Some 7, teamId = None,
          createdAt = exampleNow, updatedAt = exampleNow\<rparr>,
        \<lparr>app_id = 2, name = ''api'', key = ''kb'', ownerId = None, teamId = Some 3,
          createdAt = exampleLater, updatedAt = exampleLater\<rparr>]"
    by (simp add: run_def createHandler_def saveAndProvision_def save_def exampleSchema_def
          exampleSystem_def truthyId_def findOne_def applicationEntity_def indicesCreate_def
          indicesExists_def Let_def split: option.splits)
  have "\<forall>a \<in> set (applications exampleSystem). exactlyOne a"
    by (simp add: exampleSystem_def)
  then have "\<forall>a \<in> set (applications (run exampleSchema exampleSystem ?evs)). exactlyOne a"
    by (rule creation_exactlyOne)
  with run show ?thesis by simp
qed

text \<open>
  Claim C9, as the code has it. For a creation that passes validation and authorization:
  when the creation of the index fails after the record is stored, the record is still in
  the table (the insert is not undone), and the handler sends no answer, because the
  failure of the awaited call is not caught. The claim as written says that the request
  does not fail; the example after the theorem shows a request that gets its answer when
  the backend is up and none when it is down, with the record stored both times.
\<close>

theorem provisioning_failure_keeps_record:
  assumes valid: "applicationSchema b = None"
    and authorized: "truthyId (body_teamId b) = None
       \<or> (\<exists>tid tm. truthyId (body_teamId b) = Some tid \<and> findOne (teams st) tid = Some tm
             \<and> uid \<in> set (memberIds tm))"
    and fails: "indicesCreate up (esIndices st) (indexName (nextId st)) = None"
  shows "fst (createHandler applicationSchema k now up st uid b) = Rejected
     \<and> (\<exists>a. applications (snd (createHandler applicationSchema k now up st uid b))
               = applications st @ [a]
            \<and> app_id a = nextId st \<and> name a = body_name b \<and> key a = k)"
  using authorized
proof
  assume "truthyId (body_teamId b) = None"
  with valid fails show ?thesis
    by (simp add: createHandler_def saveAndProvision_fst saveAndProvision_applications
          applicationEntity_def)
next
  assume "\<exists>tid tm. truthyId (body_teamId b) = Some tid \<and> findOne (teams st) tid = Some tm
             \<and> uid \<in> set (memberIds tm)"
  then obtain tid tm where "truthyId (body_teamId b) = Some tid"
    and "findOne (teams st) tid = Some tm" and "uid \<in> set (memberIds tm)" by blast
  with valid fails show ?thesis
    by (simp add: createHandler_def saveAndProvision_fst saveAndProvision_applications
          applicationEntity_def)
qed

theorem provisioning_failure_keeps_record_witness:
  "fst (createHandler exampleSchema ''key'' exampleNow False exampleSystem 8
          \<lparr>body_name = ''api'', body_teamId = Some 3\<rparr>) = Rejected
   \<and> (\<exists>a. applications (snd (createHandler exampleSchema ''key'' exampleNow False exampleSystem 8
                               \<lparr>body_name = ''api'', body_teamId = Some 3\<rparr>))
             = applications exampleSystem @ [a]
          \<and> app_id a = nextId exampleSystem
          \<and> name a = body_name \<lparr>body_name = ''api'', body_teamId = Some 3\<rparr> \<and> key a = ''key'')"
proof (rule provisioning_failure_keeps_record)
  show "exampleSchema \<lparr>body_name = ''api'', body_teamId = Some 3\<rparr> = None"
    by (simp add: exampleSchema_def)
  show "truthyId (body_teamId \<lparr>body_name = ''api'', body_teamId = Some 3\<rparr>) = None
       \<or> (\<exists>tid tm. truthyId (body_teamId \<lparr>body_name = ''api'', body_teamId = Some 3\<rparr>) = Some tid
             \<and> findOne (teams exampleSystem) tid = Some tm \<and> 8 \<in> set (memberIds tm))"
    by (simp add: truthyId_def exampleSystem_def exampleTeams_def findOne_def)
  show "indicesCreate False (esIndices exampleSystem) (indexName (nextId exampleSystem)) = None"
    by (simp add: indicesCreate_def)
qed

theorem provisioning_failure_counterexample:
  "createHandler exampleSchema ''key'' exampleNow False exampleSystem 7
      \<lparr>body_name = ''web'', body_teamId = None\<rparr>
     = (Rejected,
        \<lparr>applications =
           [\<lparr>app_id = 1, name = ''web'', key = ''key'', ownerId = Some 7, teamId = None,
             createdAt = exampleNow, updatedAt = exampleNow\<rparr>],
         teams = exampleTeams, nextId = 2, esIndices = []\<rparr>)
   \<and> fst (createHandler exampleSchema ''key'' exampleNow True exampleSystem 7
           \<lparr>body_name = ''web'', body_teamId = None\<rparr>)
     = Sent \<lparr>status = 200, payload = entityJson
           \<lparr>app_id = 1, name = ''web'', key = ''key'', ownerId = Some 7, teamId = None,
             createdAt = exampleNow, updatedAt = exampleNow\<rparr>\<rparr>"
  by (simp add: createHandler_def exampleSchema_def truthyId_def saveAndProvision_def save_def
        indicesCreate_def indicesExists_def exampleSystem_def applicationEntity_def send_def
        Let_def)

section \<open>Listing: results\<close>

lemma set_listApplications:
  assumes "mset (arrival (teamsOfUser teamRows uid)) = mset (teamsOfUser teamRows uid)"
  shows "set (listApplications arrival apps teamRows uid)
     = {a \<in> set apps. ownerId a = Some uid
          \<or> (\<exists>t \<in> set teamRows. uid \<in> set (memberIds t) \<and> teamId a = Some (team_id t))}"
proof -
  have "set (arrival (teamsOfUser teamRows uid)) = set (teamsOfUser teamRows uid)"
    using mset_eq_setD [of "arrival (teamsOfUser teamRows uid)" "teamsOfUser teamRows uid"] assms
    by blast
  then show ?thesis
    by (auto simp add: listApplications_def findByOwner_def findByTeam_def teamsOfUser_def)
qed

lemma distinct_team_blocks:
  "distinct apps \<Longrightarrow> distinct (map team_id ts)
   \<Longrightarrow> distinct (concat (map (\<lambda>team. findByTeam apps (team_id team)) ts))"
proof (induction ts)
  case Nil
  then show ?case by simp
next
  case (Cons t ts)
  from Cons.prems have "team_id t \<notin> team_id ` set ts" by simp
  then have "team_id t' \<noteq> team_id t" if "t' \<in> set ts" for t'
    using that by (metis image_eqI)
  then have "set (findByTeam apps (team_id t))
      \<inter> set (concat (map (\<lambda>team. findByTeam apps (team_id team)) ts)) = {}"
    by (auto simp add: findByTeam_def)
  moreover from Cons have "distinct (concat (map (\<lambda>team. findByTeam apps (team_id team)) ts))"
    by simp
  moreover from Cons.prems have "distinct (findByTeam apps (team_id t))"
    by (simp add: findByTeam_def)
  ultimately show ?case by simp
qed

lemma distinct_listApplications:
  assumes "distinct apps" and "distinct (map team_id teamRows)"
    and "\<forall>a \<in> set apps. exactlyOne a"
    and "mset (arrival (teamsOfUser teamRows uid)) = mset (teamsOfUser teamRows uid)"
  shows "distinct (listApplications arrival apps teamRows uid)"
proof -
  have "distinct (map team_id (teamsOfUser teamRows uid))"
    using assms(2) by (simp add: teamsOfUser_def distinct_map_filter)
  moreover from assms(4)
  have "mset (map team_id (arrival (teamsOfUser teamRows uid)))
          = mset (map team_id (teamsOfUser teamRows uid))"
    by simp
  ultimately have "distinct (map team_id (arrival (teamsOfUser teamRows uid)))"
    using mset_eq_imp_distinct_iff
      [of "map team_id (arrival (teamsOfUser teamRows uid))"
          "map team_id (teamsOfUser teamRows uid)"]
    by blast
  with assms(1)
  have blocks: "distinct (concat (map (\<lambda>team. findByTeam apps (team_id team))
                                   (arrival (teamsOfUser teamRows uid))))"
    by (rule distinct_team_blocks)
  have "a \<notin> set (concat (map (\<lambda>team. findByTeam apps (team_id team)) ts))"
    if "a \<in> set (findByOwner apps uid)" for a and ts :: "team list"
  proof -
    from that have "a \<in> set apps" and "ownerId a = Some uid"
      by (simp_all add: findByOwner_def)
    with assms(3) have "teamId a = None" by (auto simp add: exactlyOne_def)
    then show ?thesis by (simp add: findByTeam_def)
  qed
  with blocks assms(1) show ?thesis
    by (auto simp add: listApplications_def findByOwner_def)
qed

lemma summary_app_id: "summary a = summary b \<Longrightarrow> app_id a = app_id b"
  by (simp add: summary_def)

lemma summary_fields:
  "\<exists>fs. summary a = JObj fs
      \<and> map fst fs = [''id'', ''name'', ''teamId'', ''ownerId'', ''createdAt'', ''updatedAt'']
      \<and> ''key'' \<notin> fst ` set fs"
  by (simp add: summary_def)

lemma summary_values:
  "summary a = JObj
     [(''id'', JNum (int (app_id a))),
      (''name'', JStr (name a)),
      (''teamId'', case teamId a of None \<Rightarrow> JNull | Some t \<Rightarrow> JNum (int t)),
      (''ownerId'', case ownerId a of None \<Rightarrow> JNull | Some u \<Rightarrow> JNum (int u)),
      (''createdAt'', JStr (createdAt a)),
      (''updatedAt'', JStr (updatedAt a))]"
  by (simp add: summary_def idJson_def)

text \<open>
  Claim C5. In a store whose primary keys are unique and whose applications have exactly
  one of \<open>ownerId\<close> and \<open>teamId\<close> set, and in whatever order the lookups of the Teams
  complete, the listing of a user is answered with status 200 and an array that holds,
  each once, the applications the user owns together with the applications of the Teams
  the user is a member of. Each entry is the object with the fields \<open>id\<close>, \<open>name\<close>,
  \<open>teamId\<close>, \<open>ownerId\<close>, \<open>createdAt\<close>, \<open>updatedAt\<close>, in this order, holding the values
  of the application's columns (a null column as \<^verbatim>\<open>null\<close>); no entry has a field
  \<open>key\<close>.
\<close>

theorem listHandler_union:
  assumes ids: "distinct (map app_id apps)" and tids: "distinct (map team_id teamRows)"
    and one: "\<forall>a \<in> set apps. exactlyOne a"
    and order: "mset (arrival (teamsOfUser teamRows uid)) = mset (teamsOfUser teamRows uid)"
  shows "\<exists>entries. listHandler arrival apps teamRows uid = \<lparr>status = 200, payload = JArr entries\<rparr>
     \<and> set entries =
          (\<lambda>a. JObj
            [(''id'', JNum (int (app_id a))),
             (''name'', JStr (name a)),
             (''teamId'', case teamId a of None \<Rightarrow> JNull | Some t \<Rightarrow> JNum (int t)),
             (''ownerId'', case ownerId a of None \<Rightarrow> JNull | Some u \<Rightarrow> JNum (int u)),
             (''createdAt'', JStr (createdAt a)),
             (''updatedAt'', JStr (updatedAt a))]) `
          {a \<in> set apps. ownerId a = Some uid
             \<or> (\<exists>t \<in> set teamRows. uid \<in> set (memberIds t) \<and> teamId a = Some (team_id t))}
     \<and> distinct entries
     \<and> (\<forall>e \<in> set entries. \<exists>fs. e = JObj fs
           \<and> map fst fs = [''id'', ''name'', ''teamId'', ''ownerId'', ''createdAt'', ''updatedAt'']
           \<and> ''key'' \<notin> fst ` set fs)"
proof -
  let ?xs = "listApplications arrival apps teamRows uid"
  note members = set_listApplications [of arrival teamRows uid apps, OF order]
  from ids have dapps: "distinct apps" and inj: "inj_on app_id (set apps)"
    by (simp_all add: distinct_map)
  have dxs: "distinct ?xs"
    using distinct_listApplications [of apps teamRows arrival uid, OF dapps tids one order] .
  have sub: "set ?xs \<subseteq> set apps" by (auto simp add: members)
  have "inj_on summary (set ?xs)"
  proof (rule inj_onI)
    fix a b assume "a \<in> set ?xs" "b \<in> set ?xs" "summary a = summary b"
    with sub inj summary_app_id [of a b] show "a = b" by (auto dest: inj_onD)
  qed
  with dxs have "distinct (map summary ?xs)" by (simp add: distinct_map)
  moreover have "set (map summary ?xs) =
          (\<lambda>a. JObj
            [(''id'', JNum (int (app_id a))),
             (''name'', JStr (name a)),
             (''teamId'', case teamId a of None \<Rightarrow> JNull | Some t \<Rightarrow> JNum (int t)),
             (''ownerId'', case ownerId a of None \<Rightarrow> JNull | Some u \<Rightarrow> JNum (int u)),
             (''createdAt'', JStr (createdAt a)),
             (''updatedAt'', JStr (updatedAt a))]) `
          {a \<in> set apps. ownerId a = Some uid
             \<or> (\<exists>t \<in> set teamRows. uid \<in> set (memberIds t) \<and> teamId a = Some (team_id t))}"
    by (simp add: members summary_values)
  moreover have "\<forall>e \<in> set (map summary ?xs). \<exists>fs. e = JObj fs
           \<and> map fst fs = [''id'', ''name'', ''teamId'', ''ownerId'', ''createdAt'', ''updatedAt'']
           \<and> ''key'' \<notin> fst ` set fs"
    using summary_fields by auto
  moreover have "listHandler arrival apps teamRows uid
                   = \<lparr>status = 200, payload = JArr (map summary ?xs)\<rparr>"
    by (simp add: listHandler_def send_def)
  ultimately show ?thesis by blast
qed

theorem listHandler_union_witness:
  "listHandler rev exampleStore exampleMemberships 7
     = \<lparr>status = 200, payload = JArr
       [JObj [(''id'', JNum 11), (''name'', JStr ''web''), (''teamId'', JNull), (''ownerId'', JNum 7),
              (''createdAt'', JStr ''2021-03-01T09:00:10.000Z''),
              (''updatedAt'', JStr ''2021-03-01T09:00:10.000Z'')],
        JObj [(''id'', JNum 13), (''name'', JStr ''ops''), (''teamId'', JNum 4), (''ownerId'', JNull),
              (''createdAt'', JStr ''2021-03-01T09:00:12.000Z''),
              (''updatedAt'', JStr ''2021-03-01T09:00:12.000Z'')],
        JObj [(''id'', JNum 12), (''name'', JStr ''api''), (''teamId'', JNum 3), (''ownerId'', JNull),
              (''createdAt'', JStr ''2021-03-01T09:00:11.000Z''),
              (''updatedAt'', JStr ''2021-03-01T09:00:11.000Z'')]]\<rparr>
   \<and> (\<exists>entries. listHandler rev exampleStore exampleMemberships 7 = \<lparr>status = 200, payload = JArr entries\<rparr>
     \<and> set entries =
          (\<lambda>a. JObj
            [(''id'', JNum (int (app_id a))),
             (''name'', JStr (name a)),
             (''teamId'', case teamId a of None \<Rightarrow> JNull | Some t \<Rightarrow> JNum (int t)),
             (''ownerId'', case ownerId a of None \<Rightarrow> JNull | Some u \<Rightarrow> JNum (int u)),
             (''createdAt'', JStr (createdAt a)),
             (''updatedAt'', JStr (updatedAt a))]) `
          {a \<in> set exampleStore. ownerId a = Some 7
             \<or> (\<exists>t \<in> set exampleMemberships. 7 \<in> set (memberIds t) \<and> teamId a = Some (team_id t))}
     \<and> distinct entries
     \<and> (\<forall>e \<in> set entries. \<exists>fs. e = JObj fs
           \<and> map fst fs = [''id'', ''name'', ''teamId'', ''ownerId'', ''createdAt'', ''updatedAt'']
           \<and> ''key'' \<notin> fst ` set fs))"
proof
  show "listHandler rev exampleStore exampleMemberships 7
     = \<lparr>status = 200, payload = JArr
       [JObj [(''id'', JNum 11), (''name'', JStr ''web''), (''teamId'', JNull), (''ownerId'', JNum 7),
              (''createdAt'', JStr ''2021-03-01T09:00:10.000Z''),
              (''updatedAt'', JStr ''2021-03-01T09:00:10.000Z'')],
        JObj [(''id'', JNum 13), (''name'', JStr ''ops''), (''teamId'', JNum 4), (''ownerId'', JNull),
              (''createdAt'', JStr ''2021-03-01T09:00:12.000Z''),
              (''updatedAt'', JStr ''2021-03-01T09:00:12.000Z'')],
        JObj [(''id'', JNum 12), (''name'', JStr ''api''), (''teamId'', JNum 3), (''ownerId'', JNull),
              (''createdAt'', JStr ''2021-03-01T09:00:11.000Z''),
              (''updatedAt'', JStr ''2021-03-01T09:00:11.000Z'')]]\<rparr>"
    by (simp add: listHandler_def listApplications_def findByOwner_def findByTeam_def
          teamsOfUser_def exampleStore_def exampleMemberships_def examplePersonal_def
          exampleShared_def exampleOps_def exampleOther_def summary_def idJson_def send_def)
next
  have "distinct (map app_id exampleStore)"
    and "distinct (map team_id exampleMemberships)"
    and "\<forall>a \<in> set exampleStore. exactlyOne a"
    and "mset (rev (teamsOfUser exampleMemberships 7)) = mset (teamsOfUser exampleMemberships 7)"
    by (simp_all add: exampleStore_def exampleMemberships_def examplePersonal_def
          exampleShared_def exampleOps_def exampleOther_def exactlyOne_def)
  then show "\<exists>entries. listHandler rev exampleStore exampleMemberships 7 = \<lparr>status = 200, payload = JArr entries\<rparr>
     \<and> set entries =
          (\<lambda>a. JObj
            [(''id'', JNum (int (app_id a))),
             (''name'', JStr (name a)),
             (''teamId'', case teamId a of None \<Rightarrow> JNull | Some t \<Rightarrow> JNum (int t)),
             (''ownerId'', case ownerId a of None \<Rightarrow> JNull | Some u \<Rightarrow> JNum (int u)),
             (''createdAt'', JStr (createdAt a)),
             (''updatedAt'', JStr (updatedAt a))]) `
          {a \<in> set exampleStore. ownerId a = Some 7
             \<or> (\<exists>t \<in> set exampleMemberships. 7 \<in> set (memberIds t) \<and> teamId a = Some (team_id t))}
     \<and> distinct entries
     \<and> (\<forall>e \<in> set entries. \<exists>fs. e = JObj fs
           \<and> map fst fs = [''id'', ''name'', ''teamId'', ''ownerId'', ''createdAt'', ''updatedAt'']
           \<and> ''key'' \<notin> fst ` set fs)"
    using listHandler_union [of exampleStore exampleMemberships rev 7] by blast
qed

section \<open>Log queries: results\<close>

lemma set_sortTimeDesc: "set (sortTimeDesc hs) = set hs"
  by (auto simp add: sortTimeDesc_def)

lemma search_Some_matches:
  assumes "search be es index n (Some q) = Some hs" and "h \<in> set hs"
  shows "matches be q (source h) \<and> accepted be q"
proof -
  from assms(1) obtain docs where
    hs: "hs = take n (sortTimeDesc (filter (\<lambda>h. matches be q (source h)) docs))"
    and acc: "accepted be q"
    by (auto simp add: search_def split: option.splits if_splits)
  from assms(2) hs have "h \<in> set (sortTimeDesc (filter (\<lambda>h. matches be q (source h)) docs))"
    by (auto dest: in_set_takeD)
  then show ?thesis using acc by (simp add: set_sortTimeDesc)
qed

lemma matches_RangeLt:
  "matches be (RangeLt f b) src
   \<Longrightarrow> \<exists>n x. map_of src f = Some (JNum n) \<and> coerce be b = Some x \<and> n < x"
  by (auto split: option.splits json.splits)

lemma matches_Match:
  "matches be (Match f c m) src \<Longrightarrow> \<exists>s. map_of src f = Some (JStr s) \<and> textMatch be c m s"
  by (auto split: option.splits json.splits)

lemma matches_historyQuery:
  assumes "matches be (historyQuery b c) src"
  shows "(\<exists>n x. map_of src ''id'' = Some (JNum n) \<and> coerce be b = Some x \<and> n < x)
     \<and> (\<forall>c'. truthyStr c = Some c' \<longrightarrow>
           (\<exists>s. map_of src ''message'' = Some (JStr s) \<and> textMatch be c' ''80%'' s))"
proof (cases "truthyStr c")
  case None
  with assms have "matches be (RangeLt ''id'' b) src" by (simp add: historyQuery_def)
  then have "\<exists>n x. map_of src ''id'' = Some (JNum n) \<and> coerce be b = Some x \<and> n < x"
    by (rule matches_RangeLt)
  with None show ?thesis by simp
next
  case (Some c')
  with assms have r: "matches be (RangeLt ''id'' b) src"
    and m: "matches be (Match ''message'' c' ''80%'') src"
    by (simp_all add: historyQuery_def)
  from r have "\<exists>n x. map_of src ''id'' = Some (JNum n) \<and> coerce be b = Some x \<and> n < x"
    by (rule matches_RangeLt)
  moreover from m have "\<exists>s. map_of src ''message'' = Some (JStr s) \<and> textMatch be c' ''80%'' s"
    by (rule matches_Match)
  ultimately show ?thesis using Some by simp
qed

lemma indexName_11: "indexName 11 = ''syslog-11''"
  by code_simp

lemma logsRequest_authorized:
  "applicationParam getById teamRows aid uid = Inr app
   \<Longrightarrow> logsRequest be dec getById teamRows es uid aid ep q = logsRoute be dec es app ep q"
  by (simp add: logsRequest_def)

lemma logsRoute_no_index:
  "\<not> indicesExists es (indexName (app_id app))
   \<Longrightarrow> logsRoute be dec es app ep q = Sent \<lparr>status = 200, payload = JArr []\<rparr>"
  by (simp add: logsRoute_def logsGuard_def send_def)

lemma logsRoute_index:
  "indicesExists es (indexName (app_id app))
   \<Longrightarrow> logsRoute be dec es app ep q =
        (case ep of
           Search \<Rightarrow> searchHandler be dec es app q
         | Recent \<Rightarrow> recentHandler be es app
         | History \<Rightarrow> historyHandler be es app q)"
  by (simp add: logsRoute_def logsGuard_def)

lemma example_authorized:
  "applicationParam exampleGetById exampleTeams 11 7 = Inr examplePersonal"
  by (simp add: applicationParam_def exampleGetById_def examplePersonal_def)

text \<open>
  Claim C6, as the code has it. For a request that passed the access resolution, on an
  application whose index exists: the search route without a \<open>content\<close> parameter
  (absent or empty) is answered 400 with the message \<^verbatim>\<open>Missing "content" parameter\<close>,
  and the history route without a \<open>before\<close> parameter is answered 400 with the message
  \<^verbatim>\<open>Missing "before" parameter\<close>. The claim as written has no condition on the index;
  the example after the theorem shows the two requests on an application without an
  index, answered \<^verbatim>\<open>[]\<close> with status 200.
\<close>

theorem missing_parameter_400:
  assumes auth: "applicationParam getById teamRows aid uid = Inr app"
    and idx: "indicesExists es (indexName (app_id app))"
  shows \<open>(truthyStr (content q) = None \<longrightarrow>
            logsRequest be dec getById teamRows es uid aid Search q
              = Sent (sendError 400 ''Missing "content" parameter''))
       \<and> (truthyStr (before q) = None \<longrightarrow>
            logsRequest be dec getById teamRows es uid aid History q
              = Sent (sendError 400 ''Missing "before" parameter''))\<close>
  using idx
  by (simp add: logsRequest_authorized [OF auth] logsRoute_index searchHandler_def
        historyHandler_def)

theorem missing_parameter_400_witness:
  \<open>logsRequest exampleBackend exampleDecodeURI exampleGetById exampleTeams exampleIndices 7 11
      Search \<lparr>content = None, before = None\<rparr>
     = Sent (sendError 400 ''Missing "content" parameter'')
   \<and> logsRequest exampleBackend exampleDecodeURI exampleGetById exampleTeams exampleIndices 7 11
      History \<lparr>content = Some ''disk'', before = Some []\<rparr>
     = Sent (sendError 400 ''Missing "before" parameter'')\<close>
proof -
  have idx: "indicesExists exampleIndices (indexName (app_id examplePersonal))"
    by (simp add: indicesExists_def exampleIndices_def examplePersonal_def indexName_11)
  have "truthyStr (content \<lparr>content = None, before = None\<rparr>) = None"
    and "truthyStr (before \<lparr>content = Some ''disk'', before = Some []\<rparr>) = None"
    by (simp_all add: truthyStr_def)
  with missing_parameter_400 [OF example_authorized idx, of "\<lparr>content = None, before = None\<rparr>"]
    missing_parameter_400 [OF example_authorized idx,
      of "\<lparr>content = Some ''disk'', before = Some []\<rparr>"]
  show ?thesis by blast
qed

theorem missing_parameter_no_index_counterexample:
  \<open>logsRequest exampleBackend exampleDecodeURI exampleGetById exampleTeams [] 7 11
      Search \<lparr>content = None, before = None\<rparr>
     = Sent \<lparr>status = 200, payload = JArr []\<rparr>
   \<and> logsRequest exampleBackend exampleDecodeURI exampleGetById exampleTeams [] 7 11
      History \<lparr>content = None, before = None\<rparr>
     = Sent \<lparr>status = 200, payload = JArr []\<rparr>\<close>
  by (simp add: logsRequest_authorized [OF example_authorized] logsRoute_no_index
        indicesExists_def)

text \<open>
  Claim C7. For a request that passed the access resolution, on an application whose
  index does not exist: the search route and the history route (and the recent route)
  are answered with the empty array and status 200.
\<close>

theorem missing_index_empty:
  assumes auth: "applicationParam getById teamRows aid uid = Inr app"
    and noidx: "\<not> indicesExists es (indexName (app_id app))"
  shows "logsRequest be dec getById teamRows es uid aid ep q
           = Sent \<lparr>status = 200, payload = JArr []\<rparr>"
  using noidx by (simp add: logsRequest_authorized [OF auth] logsRoute_no_index)

theorem missing_index_empty_witness:
  "logsRequest exampleBackend exampleDecodeURI exampleGetById exampleTeams [] 7 11
      Search \<lparr>content = Some ''disk full'', before = None\<rparr>
     = Sent \<lparr>status = 200, payload = JArr []\<rparr>
   \<and> logsRequest exampleBackend exampleDecodeURI exampleGetById exampleTeams [] 7 11
      History \<lparr>content = None, before = Some ''50''\<rparr>
     = Sent \<lparr>status = 200, payload = JArr []\<rparr>"
proof -
  have noidx: "\<not> indicesExists [] (indexName (app_id examplePersonal))"
    by (simp add: indicesExists_def)
  show ?thesis
    by (simp add: missing_index_empty [OF example_authorized noidx])
qed

text \<open>
  Claim C10. The guard on the index runs before the parameters are looked at: on an
  application whose index does not exist, the search route without a \<open>content\<close>
  parameter and the history route without a \<open>before\<close> parameter are answered with the
  empty array and status 200, not with the 400 answer.
\<close>

theorem guard_before_validation:
  assumes auth: "applicationParam getById teamRows aid uid = Inr app"
    and noidx: "\<not> indicesExists es (indexName (app_id app))"
  shows \<open>(truthyStr (content q) = None \<longrightarrow>
            logsRequest be dec getById teamRows es uid aid Search q
              = Sent \<lparr>status = 200, payload = JArr []\<rparr>
          \<and> logsRequest be dec getById teamRows es uid aid Search q
              \<noteq> Sent (sendError 400 ''Missing "content" parameter''))
       \<and> (truthyStr (before q) = None \<longrightarrow>
            logsRequest be dec getById teamRows es uid aid History q
              = Sent \<lparr>status = 200, payload = JArr []\<rparr>
          \<and> logsRequest be dec getById teamRows es uid aid History q
              \<noteq> Sent (sendError 400 ''Missing "before" parameter''))\<close>
  using noidx
  by (simp add: logsRequest_authorized [OF auth] logsRoute_no_index sendError_def)

theorem guard_before_validation_witness:
  \<open>logsRequest exampleBackend exampleDecodeURI exampleGetById exampleTeams
      [(''syslog-12'', exampleHits)] 7 11 Search \<lparr>content = None, before = None\<rparr>
     = Sent \<lparr>status = 200, payload = JArr []\<rparr>
   \<and> logsRequest exampleBackend exampleDecodeURI exampleGetById exampleTeams
      [(''syslog-12'', exampleHits)] 7 11 History \<lparr>content = None, before = None\<rparr>
     = Sent \<lparr>status = 200, payload = JArr []\<rparr>\<close>
proof -
  have noidx: "\<not> indicesExists [(''syslog-12'', exampleHits)] (indexName (app_id examplePersonal))"
    by (simp add: indicesExists_def examplePersonal_def indexName_11)
  have "truthyStr (content \<lparr>content = None, before = None\<rparr>) = None"
    and "truthyStr (before \<lparr>content = None, before = None\<rparr>) = None"
    by (simp_all add: truthyStr_def)
  with guard_before_validation [OF example_authorized noidx,
      of "\<lparr>content = None, before = None\<rparr>" exampleBackend exampleDecodeURI]
  show ?thesis by blast
qed

text \<open>
  Claim C8. For a request to the history route that passed the access resolution, with
  \<open>before\<close> set to \<open>b\<close>: every record of the answer has a number in its field \<open>id\<close> that is
  strictly below the number the backend reads from \<open>b\<close>; and when a \<open>content\<close> parameter
  is given as well, the \<open>message\<close> of every record also satisfies the backend's full-text
  match of that content at the threshold \<^verbatim>\<open>80%\<close>.
\<close>

theorem history_before_exclusive:
  assumes auth: "applicationParam getById teamRows aid uid = Inr app"
    and bef: "truthyStr (before q) = Some b"
    and sent: "logsRequest be dec getById teamRows es uid aid History q = Sent r"
  shows "status r = 200
     \<and> (\<exists>entries. payload r = JArr entries
          \<and> (\<forall>e \<in> set entries. \<exists>fs n x. e = JObj fs
                \<and> map_of fs ''id'' = Some (JNum n) \<and> coerce be b = Some x \<and> n < x
                \<and> (\<forall>c. truthyStr (content q) = Some c \<longrightarrow>
                      (\<exists>m. map_of fs ''message'' = Some (JStr m) \<and> textMatch be c ''80%'' m))))"
proof (cases "indicesExists es (indexName (app_id app))")
  case False
  with sent have "r = \<lparr>status = 200, payload = JArr []\<rparr>"
    by (simp add: logsRequest_authorized [OF auth] logsRoute_no_index)
  then show ?thesis by simp
next
  case True
  let ?q = "historyQuery b (content q)"
  from sent True bef
  have "sendHits (search be es (indexName (app_id app)) 100 (Some ?q)) = Sent r"
    by (simp add: logsRequest_authorized [OF auth] logsRoute_index historyHandler_def)
  then obtain hs where hs: "search be es (indexName (app_id app)) 100 (Some ?q) = Some hs"
    and r: "r = send (JArr (map reshape hs))"
    by (auto simp add: sendHits_def split: option.splits)
  have "\<exists>fs n x. e = JObj fs
          \<and> map_of fs ''id'' = Some (JNum n) \<and> coerce be b = Some x \<and> n < x
          \<and> (\<forall>c. truthyStr (content q) = Some c \<longrightarrow>
                (\<exists>m. map_of fs ''message'' = Some (JStr m) \<and> textMatch be c ''80%'' m))"
    if "e \<in> set (map reshape hs)" for e
  proof -
    from that obtain h where h: "h \<in> set hs" and e: "e = reshape h" by auto
    from hs h have "matches be ?q (source h)" by (simp add: search_Some_matches)
    then have m: "(\<exists>n x. map_of (source h) ''id'' = Some (JNum n) \<and> coerce be b = Some x \<and> n < x)
     \<and> (\<forall>c'. truthyStr (content q) = Some c' \<longrightarrow>
           (\<exists>s. map_of (source h) ''message'' = Some (JStr s) \<and> textMatch be c' ''80%'' s))"
      by (rule matches_historyQuery)
    have "e = JObj (AList.update ''_id'' (JStr (hit_id h)) (source h))"
      by (simp add: e reshape_def)
    moreover have "map_of (AList.update ''_id'' (JStr (hit_id h)) (source h)) ''id''
        = map_of (source h) ''id''"
      and "map_of (AList.update ''_id'' (JStr (hit_id h)) (source h)) ''message''
        = map_of (source h) ''message''"
      by (simp_all add: update_conv')
    ultimately show ?thesis using m by simp
  qed
  with r show ?thesis by (simp add: send_def)
qed

lemma example_history:
  "logsRequest exampleBackend exampleDecodeURI exampleGetById exampleTeams exampleIndices 7 11
      History \<lparr>content = Some ''disk full'', before = Some ''50''\<rparr>
     = Sent (send (JArr
         [JObj [(''id'', JNum 40), (''time'', JNum 1000), (''message'', JStr ''disk full''),
                (''_id'', JStr ''a'')]]))"
  (is "logsRequest _ _ _ _ _ _ _ _ ?q = ?r")
proof -
  have idx: "indicesExists exampleIndices (indexName (app_id examplePersonal))"
    by (simp add: indicesExists_def exampleIndices_def examplePersonal_def indexName_11)
  have "logsRequest exampleBackend exampleDecodeURI exampleGetById exampleTeams exampleIndices
          7 11 History ?q = historyHandler exampleBackend exampleIndices examplePersonal ?q"
    by (simp add: logsRequest_authorized [OF example_authorized] logsRoute_index [OF idx])
  also have "\<dots> = ?r"
    by (simp add: historyHandler_def truthyStr_def historyQuery_def search_def
          exampleIndices_def examplePersonal_def indexName_11 exampleBackend_def
          exampleHits_def sortTimeDesc_def timeOf_def sendHits_def reshape_def)
  finally show ?thesis .
qed

theorem history_before_exclusive_witness:
  "logsRequest exampleBackend exampleDecodeURI exampleGetById exampleTeams exampleIndices 7 11
      History \<lparr>content = Some ''disk full'', before = Some ''50''\<rparr>
     = Sent (send (JArr
         [JObj [(''id'', JNum 40), (''time'', JNum 1000), (''message'', JStr ''disk full''),
                (''_id'', JStr ''a'')]]))
   \<and> (\<exists>entries. payload (send (JArr
         [JObj [(''id'', JNum 40), (''time'', JNum 1000), (''message'', JStr ''disk full''),
                (''_id'', JStr ''a'')]])) = JArr entries
          \<and> (\<forall>e \<in> set entries. \<exists>fs n x. e = JObj fs
                \<and> map_of fs ''id'' = Some (JNum n) \<and> coerce exampleBackend ''50'' = Some x \<and> n < x
                \<and> (\<forall>c. truthyStr (content \<lparr>content = Some ''disk full'', before = Some ''50''\<rparr>) = Some c \<longrightarrow>
                      (\<exists>m. map_of fs ''message'' = Some (JStr m)
                          \<and> textMatch exampleBackend c ''80%'' m))))"
proof -
  have bef: "truthyStr (before \<lparr>content = Some ''disk full'', before = Some ''50''\<rparr>) = Some ''50''"
    by (simp add: truthyStr_def)
  from history_before_exclusive [OF example_authorized bef example_history] example_history
  show ?thesis by blast
qed

end
